theory Spec2Isabelle
  imports Main "HOL-Library.AList" "HOL-Library.Sublist"
begin

section \<open>The syntax tree and the program, as SchemaGenerator.ts reads them\<close>

text \<open>
  Only the parts of the TypeScript compiler's data that \<^verbatim>\<open>SchemaGenerator.ts\<close> reads are
  kept. A symbol is identified by a key; \<open>has_exportSymbol\<close> says whether the property
  \<^verbatim>\<open>exportSymbol\<close> is present on the symbol object (the test \<^verbatim>\<open>"exportSymbol" in localSymbol\<close>).
\<close>

datatype ts_symbol = TsSymbol (symbol_key: nat) (has_exportSymbol: bool)

datatype syntax_kind =
    SourceFile
  | InterfaceDeclaration
  | ClassDeclaration
  | EnumDeclaration
  | TypeAliasDeclaration
  | OtherKind nat

text \<open>
  What the compiler's binder has attached to a node. It sets the field \<^verbatim>\<open>localSymbol\<close>
  only on a declaration to which it has also given a \<^verbatim>\<open>symbol\<close>: a node carries no
  symbol, or a symbol, or a symbol together with a local symbol.
\<close>

datatype node_symbols =
    NoSymbol
  | Declared ts_symbol "ts_symbol option"

text \<open>
  A node: its kind, what the binder attached to it, the field \<^verbatim>\<open>typeParameters\<close>
  (undefined or an array; only its length is read) and the children in the order
  \<^verbatim>\<open>ts.forEachChild\<close> visits them.
\<close>

datatype ts_node =
  TsNode (kind: syntax_kind) (symbols: node_symbols)
         (typeParameters: "string list option") (children: "ts_node list")

text \<open>
  \<^verbatim>\<open>symbolAtNode(node)\<close> and \<^verbatim>\<open>localSymbolAtNode(node)\<close> read the fields \<^verbatim>\<open>symbol\<close> and
  \<^verbatim>\<open>localSymbol\<close>; either may be undefined.
\<close>

definition symbol :: "ts_node \<Rightarrow> ts_symbol option" where
  "symbol node = (case symbols node of NoSymbol \<Rightarrow> None | Declared s l \<Rightarrow> Some s)"

definition localSymbol :: "ts_node \<Rightarrow> ts_symbol option" where
  "localSymbol node = (case symbols node of NoSymbol \<Rightarrow> None | Declared s l \<Rightarrow> l)"

record source_file =
  fileName :: string
  file_node :: ts_node

type_synonym type_checker = "ts_symbol \<Rightarrow> string"

record program =
  rootFileNames :: "string list"
  sourceFiles :: "source_file list"
  typeChecker :: type_checker

text \<open>
  The errors of the module: \<^verbatim>\<open>NoRootTypeError(fullName)\<close>, the plain \<^verbatim>\<open>Error(message)\<close>
  of the collision check, and the \<^verbatim>\<open>TypeError\<close> the runtime raises when the symbol
  asserted non-null in \<^verbatim>\<open>getFullName\<close> is undefined and the checker reads it.
\<close>

datatype error = NoRootTypeError string | Error string | TypeError

text \<open>
  \<^verbatim>\<open>Map<string, ts.Node>\<close> keeps its keys in insertion order and \<^verbatim>\<open>set\<close> on a key that
  is present replaces the value in place: an association list under \<^const>\<open>AList.update\<close>.
\<close>

type_synonym node_index = "(string \<times> ts_node) list"

section \<open>Qualified names\<close>

text \<open>
  \<^verbatim>\<open>name.replace(/".*"\./, "")\<close>: the first match of the pattern is removed. A match
  starts at a double quote; \<^verbatim>\<open>.*\<close> takes as many characters other than line
  terminators as it can and gives them back one at a time until a double quote and a
  dot follow. Strings are lists of 8-bit characters, where the line terminators are
  LF and CR.
\<close>

definition dquote :: char where
  "dquote = CHR 0x22"

definition isLineTerminator :: "char \<Rightarrow> bool" where
  "isLineTerminator c = (c = CHR 0x0A \<or> c = CHR 0x0D)"

text \<open>\<open>matchQuoteDot t\<close>: the closing \<^verbatim>\<open>"\.\<close> of the pattern matched at the head of \<open>t\<close>.\<close>

fun matchQuoteDot :: "string \<Rightarrow> string option" where
  "matchQuoteDot (a # b # r) = (if a = dquote \<and> b = CHR ''.'' then Some r else None)"
| "matchQuoteDot _ = None"

text \<open>
  \<open>matchStarQuoteDot t\<close>: \<^verbatim>\<open>.*"\.\<close> matched at the head of \<open>t\<close>, longest first; the
  result is what follows the match.
\<close>

fun matchStarQuoteDot :: "string \<Rightarrow> string option" where
  "matchStarQuoteDot [] = None"
| "matchStarQuoteDot (c # cs) =
     (if isLineTerminator c then matchQuoteDot (c # cs)
      else (case matchStarQuoteDot cs of
              Some r \<Rightarrow> Some r
            | None \<Rightarrow> matchQuoteDot (c # cs)))"

fun stripModulePrefix :: "string \<Rightarrow> string" where
  "stripModulePrefix [] = []"
| "stripModulePrefix (c # cs) =
     (if c = dquote then
        (case matchStarQuoteDot cs of
           Some r \<Rightarrow> r
         | None \<Rightarrow> c # stripModulePrefix cs)
      else c # stripModulePrefix cs)"

section \<open>The declaration index\<close>

definition isDeclarationKind :: "syntax_kind \<Rightarrow> bool" where
  "isDeclarationKind k =
     (k = InterfaceDeclaration \<or> k = ClassDeclaration \<or> k = EnumDeclaration
      \<or> k = TypeAliasDeclaration)"

definition isExportType :: "ts_node \<Rightarrow> bool" where
  "isExportType node =
     (case localSymbol node of Some localSym \<Rightarrow> has_exportSymbol localSym | None \<Rightarrow> False)"

definition isGenericType :: "ts_node \<Rightarrow> bool" where
  "isGenericType node =
     (case typeParameters node of Some ps \<Rightarrow> length ps > 0 | None \<Rightarrow> False)"

definition getFullName :: "type_checker \<Rightarrow> ts_node \<Rightarrow> error + string" where
  "getFullName tc node =
     (case symbol node of
        None \<Rightarrow> Inl TypeError
      | Some boundSymbol \<Rightarrow> Inr (stripModulePrefix (tc boundSymbol)))"

fun inspectNode :: "type_checker \<Rightarrow> ts_node \<Rightarrow> node_index \<Rightarrow> error + node_index"
  and inspectChildren :: "type_checker \<Rightarrow> ts_node list \<Rightarrow> node_index \<Rightarrow> error + node_index"
where
  "inspectNode tc (TsNode k sy tp cs) allTypes =
     (if isDeclarationKind k then
        (if \<not> isExportType (TsNode k sy tp cs) \<or> isGenericType (TsNode k sy tp cs)
         then Inr allTypes
         else (case getFullName tc (TsNode k sy tp cs) of
                 Inl e \<Rightarrow> Inl e
               | Inr name \<Rightarrow> Inr (AList.update name (TsNode k sy tp cs) allTypes)))
      else inspectChildren tc cs allTypes)"
| "inspectChildren tc [] allTypes = Inr allTypes"
| "inspectChildren tc (c # cs) allTypes =
     (case inspectNode tc c allTypes of
        Inl e \<Rightarrow> Inl e
      | Inr allTypes' \<Rightarrow> inspectChildren tc cs allTypes')"

fun appendTypes :: "source_file list \<Rightarrow> type_checker \<Rightarrow> node_index \<Rightarrow> error + node_index" where
  "appendTypes [] tc types = Inr types"
| "appendTypes (sf # sfs) tc types =
     (case inspectNode tc (file_node sf) types of
        Inl e \<Rightarrow> Inl e
      | Inr types' \<Rightarrow> appendTypes sfs tc types')"

section \<open>Root selection\<close>

text \<open>\<^verbatim>\<open>s.includes(p)\<close> on strings: \<open>p\<close> occurs in \<open>s\<close> as a contiguous run.\<close>

fun includesStr :: "string \<Rightarrow> string \<Rightarrow> bool" where
  "includesStr [] p = (p = [])"
| "includesStr (c # cs) p = (prefix p (c # cs) \<or> includesStr cs p)"

definition isExternalFile :: "source_file \<Rightarrow> bool" where
  "isExternalFile sf = includesStr (fileName sf) ''/node_modules/''"

text \<open>\<^verbatim>\<open>partitionFiles\<close> returns the pair \<open>(projectFiles, externalFiles)\<close>.\<close>

fun partitionLoop ::
  "source_file list \<Rightarrow> source_file list \<times> source_file list
     \<Rightarrow> source_file list \<times> source_file list" where
  "partitionLoop [] acc = acc"
| "partitionLoop (sf # sfs) (projectFiles, externalFiles) =
     (if isExternalFile sf
      then partitionLoop sfs (projectFiles, externalFiles @ [sf])
      else partitionLoop sfs (projectFiles @ [sf], externalFiles))"

definition partitionFiles :: "program \<Rightarrow> source_file list \<times> source_file list" where
  "partitionFiles prog = partitionLoop (sourceFiles prog) ([], [])"

text \<open>\<^verbatim>\<open>allTypes.has(fullName)\<close> and \<^verbatim>\<open>allTypes.get(fullName)\<close> are \<^const>\<open>map_of\<close>.\<close>

definition findNamedNode :: "program \<Rightarrow> string \<Rightarrow> error + ts_node" where
  "findNamedNode prog fullName =
     (case partitionFiles prog of (projectFiles, externalFiles) \<Rightarrow>
        (case appendTypes projectFiles (typeChecker prog) [] of
           Inl e \<Rightarrow> Inl e
         | Inr allTypes \<Rightarrow>
             (case map_of allTypes fullName of
                Some node \<Rightarrow> Inr node
              | None \<Rightarrow>
                  (case appendTypes externalFiles (typeChecker prog) allTypes of
                     Inl e \<Rightarrow> Inl e
                   | Inr allTypes' \<Rightarrow>
                       (case map_of allTypes' fullName of
                          Some node \<Rightarrow> Inr node
                        | None \<Rightarrow> Inl (NoRootTypeError fullName))))))"

text \<open>
  The query is \<^verbatim>\<open>string | undefined\<close>. The test \<^verbatim>\<open>fullName && fullName !== "*"\<close> is
  false for undefined, for the empty string and for the wildcard.
\<close>

definition isNamedQuery :: "string option \<Rightarrow> bool" where
  "isNamedQuery q = (case q of None \<Rightarrow> False | Some n \<Rightarrow> n \<noteq> [] \<and> n \<noteq> ''*'')"

definition rootSourceFiles :: "program \<Rightarrow> source_file list" where
  "rootSourceFiles prog =
     filter (\<lambda>sf. fileName sf \<in> set (rootFileNames prog)) (sourceFiles prog)"

definition getRootNodes :: "program \<Rightarrow> string option \<Rightarrow> error + ts_node list" where
  "getRootNodes prog q =
     (if isNamedQuery q then
        (case findNamedNode prog (the q) of
           Inl e \<Rightarrow> Inl e
         | Inr node \<Rightarrow> Inr [node])
      else
        (case appendTypes (rootSourceFiles prog) (typeChecker prog) [] of
           Inl e \<Rightarrow> Inl e
         | Inr rootNodes \<Rightarrow> Inr (map snd rootNodes)))"

section \<open>The type graph, the formatter and the schema document\<close>

text \<open>
  Modelled from the spec: the classes \<^verbatim>\<open>BaseType\<close> and \<^verbatim>\<open>DefinitionType\<close>, which
  \<^verbatim>\<open>SchemaGenerator.ts\<close> imports. Every type-graph node has an identity, a string
  (\<^verbatim>\<open>getId\<close>). A node that denotes a named, definable type is a \<^verbatim>\<open>DefinitionType\<close>: it
  is made of a name (\<^verbatim>\<open>getName\<close>) and of the type it names (\<^verbatim>\<open>getType\<close>), and its
  identity is \<^verbatim>\<open>def-\<close> followed by the identity of that type, as the repository's class
  computes it. Of any other node only the identity is kept.
\<close>

datatype base_type =
    IsDefinitionType definition_type
  | OtherType string
and definition_type =
    DefinitionType (getName: string) (getType: base_type)

fun typeId :: "base_type \<Rightarrow> string"
  and getId :: "definition_type \<Rightarrow> string" where
  "typeId (IsDefinitionType d) = getId d"
| "typeId (OtherType i) = i"
| "getId (DefinitionType n t) = ''def-'' @ typeId t"

text \<open>\<^verbatim>\<open>.filter(child => child instanceof DefinitionType)\<close>\<close>

fun definitionTypes :: "base_type list \<Rightarrow> definition_type list" where
  "definitionTypes [] = []"
| "definitionTypes (IsDefinitionType d # ts) = d # definitionTypes ts"
| "definitionTypes (OtherType i # ts) = definitionTypes ts"

text \<open>
  Modelled from the spec: the types \<^verbatim>\<open>Definition\<close>, \<^verbatim>\<open>Schema\<close> and \<^verbatim>\<open>StringMap\<close>, which
  \<^verbatim>\<open>SchemaGenerator.ts\<close> imports. A definition is a JSON-Schema-shaped object literal,
  and the document is \<^verbatim>\<open>{ $schema, ...rootFields, definitions }\<close>. An object is the list
  of its own properties in the order in which they were first written; writing a
  property that is present replaces its value in place (\<^const>\<open>AList.update\<close>). The list
  is not the order of enumeration: JavaScript enumerates the integer-like keys of an
  object first, in ascending order, and the other keys after them in this order.
\<close>

datatype json =
    JString string
  | JNumber int
  | JBool bool
  | JNull
  | JArray "json list"
  | JObject "(string \<times> json) list"

type_synonym schema_definition = "(string \<times> json) list"

text \<open>
  The two collaborators are parameters: the formatter with its operations
  \<^verbatim>\<open>getDefinition\<close> and \<^verbatim>\<open>getChildren\<close>, and \<^verbatim>\<open>nodeParser.createType\<close>, which is
  given a fresh \<^verbatim>\<open>Context\<close> at every call and is therefore a function of the node.
\<close>

record type_formatter =
  getDefinition :: "base_type \<Rightarrow> schema_definition"
  getChildren :: "base_type \<Rightarrow> base_type list"

type_synonym node_parser = "ts_node \<Rightarrow> base_type"

section \<open>The definition collector\<close>

text \<open>The filter with the \<^verbatim>\<open>seen\<close> set: a child is kept the first time its id is met.\<close>

fun filterUnseen :: "string set \<Rightarrow> definition_type list \<Rightarrow> definition_type list" where
  "filterUnseen seen [] = []"
| "filterUnseen seen (child # cs) =
     (if getId child \<notin> seen
      then child # filterUnseen (insert (getId child) seen) cs
      else filterUnseen seen cs)"

definition dedupedChildren :: "type_formatter \<Rightarrow> base_type \<Rightarrow> definition_type list" where
  "dedupedChildren tf rootType = filterUnseen {} (definitionTypes (getChildren tf rootType))"

definition collisionMessage :: "string \<Rightarrow> string" where
  "collisionMessage name = ''Type '' @ [dquote] @ name @ [dquote] @ '' has multiple definitions.''"

text \<open>
  The loop over \<^verbatim>\<open>children\<close> with the map \<^verbatim>\<open>ids\<close>. The test
  \<^verbatim>\<open>previousId && child.getId() !== previousId\<close> is false when \<^verbatim>\<open>previousId\<close> is
  undefined and when it is the empty string.
\<close>

fun checkCollisions :: "(string \<rightharpoonup> string) \<Rightarrow> definition_type list \<Rightarrow> error + unit" where
  "checkCollisions ids [] = Inr ()"
| "checkCollisions ids (child # cs) =
     (if (case ids (getName child) of
            None \<Rightarrow> False
          | Some previousId \<Rightarrow> previousId \<noteq> [] \<and> getId child \<noteq> previousId)
      then Inl (Error (collisionMessage (getName child)))
      else checkCollisions (ids(getName child \<mapsto> getId child)) cs)"

text \<open>
  \<^verbatim>\<open>name in definitions\<close> is true for an own property and for a property inherited
  from \<^verbatim>\<open>Object.prototype\<close>, the prototype of the literal \<^verbatim>\<open>{}\<close> that the callers pass.
\<close>

definition objectPrototypeKeys :: "string list" where
  "objectPrototypeKeys =
     [''constructor'', ''__defineGetter__'', ''__defineSetter__'', ''hasOwnProperty'',
      ''__lookupGetter__'', ''__lookupSetter__'', ''isPrototypeOf'', ''propertyIsEnumerable'',
      ''toString'', ''valueOf'', ''__proto__'', ''toLocaleString'']"

definition inObject :: "string \<Rightarrow> (string \<times> 'v) list \<Rightarrow> bool" where
  "inObject name obj = (name \<in> fst ` set obj \<or> name \<in> set objectPrototypeKeys)"

text \<open>
  The \<^verbatim>\<open>reduce\<close> that fills the mapping. The state is the mapping together with the
  list of the children on which \<^verbatim>\<open>getDefinition\<close> has been called, oldest first; the
  list records the calls and is read by nothing in the program. The mapping lists its
  keys in the order of their insertion, which for a key that is integer-like is not its
  place in the enumeration.
\<close>

type_synonym collector = "(string \<times> schema_definition) list \<times> definition_type list"

fun materialize :: "type_formatter \<Rightarrow> definition_type list \<Rightarrow> collector \<Rightarrow> collector" where
  "materialize tf [] st = st"
| "materialize tf (child # cs) (definitions, calls) =
     (if \<not> inObject (getName child) definitions
      then materialize tf cs
             (AList.update (getName child) (getDefinition tf (getType child)) definitions,
              calls @ [child])
      else materialize tf cs (definitions, calls))"

definition appendRootChildDefinitions ::
  "type_formatter \<Rightarrow> base_type \<Rightarrow> collector \<Rightarrow> error + collector" where
  "appendRootChildDefinitions tf rootType childDefinitions =
     (case checkCollisions Map.empty (dedupedChildren tf rootType) of
        Inl e \<Rightarrow> Inl e
      | Inr _ \<Rightarrow> Inr (materialize tf (dedupedChildren tf rootType) childDefinitions))"

section \<open>The schema document\<close>

definition getRootTypeDefinition :: "type_formatter \<Rightarrow> base_type \<Rightarrow> schema_definition" where
  "getRootTypeDefinition tf rootType = getDefinition tf rootType"

text \<open>\<^verbatim>\<open>rootTypes.forEach(rootType => this.appendRootChildDefinitions(rootType, definitions))\<close>\<close>

fun appendAllRoots :: "type_formatter \<Rightarrow> base_type list \<Rightarrow> collector \<Rightarrow> error + collector" where
  "appendAllRoots tf [] st = Inr st"
| "appendAllRoots tf (rootType # rs) st =
     (case appendRootChildDefinitions tf rootType st of
        Inl e \<Rightarrow> Inl e
      | Inr st' \<Rightarrow> appendAllRoots tf rs st')"

text \<open>The spread \<^verbatim>\<open>{ ...obj, ...src }\<close>: the properties of \<open>src\<close> are written in order.\<close>

definition spread :: "(string \<times> json) list \<Rightarrow> (string \<times> json) list \<Rightarrow> (string \<times> json) list" where
  "spread obj src = foldl (\<lambda>acc kv. AList.update (fst kv) (snd kv) acc) obj src"

definition draft07 :: string where
  "draft07 = ''http://json-schema.org/draft-07/schema#''"

definition definitionsJson :: "(string \<times> schema_definition) list \<Rightarrow> json" where
  "definitionsJson definitions = JObject (map (\<lambda>nd. (fst nd, JObject (snd nd))) definitions)"

definition createSchema ::
  "program \<Rightarrow> node_parser \<Rightarrow> type_formatter \<Rightarrow> string option \<Rightarrow> error + (string \<times> json) list" where
  "createSchema prog createType tf fullName =
     (case getRootNodes prog fullName of
        Inl e \<Rightarrow> Inl e
      | Inr rootNodes \<Rightarrow>
          (let rootTypes = map createType rootNodes;
               rootTypeDefinition =
                 (if length rootTypes = 1 then getRootTypeDefinition tf (hd rootTypes) else [])
           in (case appendAllRoots tf rootTypes ([], []) of
                 Inl e \<Rightarrow> Inl e
               | Inr st \<Rightarrow>
                   Inr (AList.update ''definitions'' (definitionsJson (fst st))
                          (spread [(''$schema'', JString draft07)] rootTypeDefinition)))))"

section \<open>Predicates and concrete inputs used by the properties\<close>

text \<open>
  A node is recorded when inspecting it into an empty index returns an index that
  holds the node.
\<close>

definition recordedIn :: "type_checker \<Rightarrow> ts_node \<Rightarrow> bool" where
  "recordedIn tc node =
     (case inspectNode tc node [] of Inr idx \<Rightarrow> node \<in> snd ` set idx | Inl e \<Rightarrow> False)"

definition boxChecker :: type_checker where
  "boxChecker s = ''Box''"

text \<open>\<^verbatim>\<open>export interface Box<T> {}\<close> and \<^verbatim>\<open>export interface Box {}\<close>\<close>

definition exportedGenericInterface :: ts_node where
  "exportedGenericInterface =
     TsNode InterfaceDeclaration (Declared (TsSymbol 1 False) (Some (TsSymbol 2 True))) (Some [''T'']) []"

definition exportedPlainInterface :: ts_node where
  "exportedPlainInterface =
     TsNode InterfaceDeclaration (Declared (TsSymbol 1 False) (Some (TsSymbol 2 True))) None []"

text \<open>
  The checker's name of a declaration \<open>name\<close> in the module of path \<open>path\<close>, and two
  checkers that name every symbol \<^verbatim>\<open>"/src/a".Foo.Bar\<close> and \<^verbatim>\<open>"/lib/b".Foo.Bar\<close>.
\<close>

definition quotedModuleName :: "string \<Rightarrow> string \<Rightarrow> string" where
  "quotedModuleName path name = dquote # path @ dquote # CHR ''.'' # name"

definition otherModuleChecker :: type_checker where
  "otherModuleChecker s = [dquote] @ ''/lib/b'' @ [dquote] @ ''.Foo.Bar''"

definition modulePathChecker :: type_checker where
  "modulePathChecker s = [dquote] @ ''/src/a'' @ [dquote] @ ''.Foo.Bar''"

text \<open>
  The declarations the traversal of \<^verbatim>\<open>inspectNode\<close> reaches, in the order it reaches
  them: a node of one of the four declaration kinds is reached and not entered, any
  other node is entered, child by child.
\<close>

fun visitedDeclarations :: "ts_node \<Rightarrow> ts_node list"
  and visitedDeclarationsOf :: "ts_node list \<Rightarrow> ts_node list" where
  "visitedDeclarations (TsNode k sy tp cs) =
     (if isDeclarationKind k then [TsNode k sy tp cs] else visitedDeclarationsOf cs)"
| "visitedDeclarationsOf [] = []"
| "visitedDeclarationsOf (c # cs) = visitedDeclarations c @ visitedDeclarationsOf cs"

definition eligible :: "ts_node \<Rightarrow> bool" where
  "eligible node = (isExportType node \<and> \<not> isGenericType node)"

definition discovered :: "ts_node \<Rightarrow> ts_node list" where
  "discovered node = filter eligible (visitedDeclarations node)"

definition discoveredInFiles :: "source_file list \<Rightarrow> ts_node list" where
  "discoveredInFiles files = concat (map (\<lambda>sf. discovered (file_node sf)) files)"

definition visitedInFiles :: "source_file list \<Rightarrow> ts_node list" where
  "visitedInFiles files = concat (map (\<lambda>sf. visitedDeclarations (file_node sf)) files)"

text \<open>The full name of a declaration whose symbol is bound.\<close>

definition fullNameOf :: "type_checker \<Rightarrow> ts_node \<Rightarrow> string" where
  "fullNameOf tc node = (case symbol node of Some s \<Rightarrow> stripModulePrefix (tc s) | None \<Rightarrow> [])"

definition recordAll :: "type_checker \<Rightarrow> ts_node list \<Rightarrow> node_index \<Rightarrow> node_index" where
  "recordAll tc ds m = foldl (\<lambda>acc d. AList.update (fullNameOf tc d) d acc) m ds"

definition allBound :: "ts_node list \<Rightarrow> bool" where
  "allBound ds = (\<forall>d \<in> set ds. symbol d \<noteq> None)"

text \<open>
  A declaration that is not exported, and a source file that holds that declaration
  and, inside a block, two exported ones.
\<close>

definition localEnum :: ts_node where
  "localEnum = TsNode EnumDeclaration (Declared (TsSymbol 5 False) None) None []"

definition sampleFileNode :: ts_node where
  "sampleFileNode =
     TsNode SourceFile NoSymbol None
       [localEnum,
        TsNode (OtherKind 0) NoSymbol None [exportedPlainInterface, exportedGenericInterface]]"

text \<open>
  Two programs. In the first, both root files export an interface \<^verbatim>\<open>Foo\<close>; the
  checker names them \<^verbatim>\<open>"/src/a".Foo\<close> and \<^verbatim>\<open>"/src/b".Foo\<close>. In the second, only
  \<^verbatim>\<open>/src/a.ts\<close> is a root file.
\<close>

definition fooChecker :: type_checker where
  "fooChecker s =
     (if symbol_key s = 1 then [dquote] @ ''/src/a'' @ [dquote] @ ''.Foo''
      else [dquote] @ ''/src/b'' @ [dquote] @ ''.Foo'')"

definition fooInB :: ts_node where
  "fooInB = TsNode InterfaceDeclaration (Declared (TsSymbol 3 False) (Some (TsSymbol 4 True))) None []"

definition twoFooProgram :: program where
  "twoFooProgram =
     \<lparr>rootFileNames = [''/src/a.ts'', ''/src/b.ts''],
      sourceFiles =
        [\<lparr>fileName = ''/src/a.ts'',
          file_node = TsNode SourceFile NoSymbol None [exportedPlainInterface]\<rparr>,
         \<lparr>fileName = ''/src/b.ts'',
          file_node = TsNode SourceFile NoSymbol None [fooInB]\<rparr>],
      typeChecker = fooChecker\<rparr>"

definition sampleProgram :: program where
  "sampleProgram =
     \<lparr>rootFileNames = [''/src/a.ts''],
      sourceFiles =
        [\<lparr>fileName = ''/src/a.ts'', file_node = sampleFileNode\<rparr>,
         \<lparr>fileName = ''/src/lib.ts'',
          file_node = TsNode SourceFile NoSymbol None [fooInB]\<rparr>],
      typeChecker = boxChecker\<rparr>"

text \<open>The discovered declarations paired with their full names.\<close>

definition namePairs :: "type_checker \<Rightarrow> ts_node list \<Rightarrow> node_index" where
  "namePairs tc ds = map (\<lambda>d. (fullNameOf tc d, d)) ds"

text \<open>
  The project files and the external files of a program, and a program in which a
  project file and a file under \<^verbatim>\<open>/node_modules/\<close> both export \<^verbatim>\<open>Foo\<close>.
\<close>

definition projectFilesOf :: "program \<Rightarrow> source_file list" where
  "projectFilesOf prog = filter (\<lambda>sf. \<not> isExternalFile sf) (sourceFiles prog)"

definition externalFilesOf :: "program \<Rightarrow> source_file list" where
  "externalFilesOf prog = filter isExternalFile (sourceFiles prog)"

definition shadowProgram :: program where
  "shadowProgram =
     \<lparr>rootFileNames = [''/src/a.ts''],
      sourceFiles =
        [\<lparr>fileName = ''/proj/node_modules/lib/index.d.ts'',
          file_node = TsNode SourceFile NoSymbol None [fooInB]\<rparr>,
         \<lparr>fileName = ''/src/a.ts'',
          file_node = TsNode SourceFile NoSymbol None [exportedPlainInterface]\<rparr>],
      typeChecker = fooChecker\<rparr>"

text \<open>
  The entry that materializing a child writes, and the states in which the mapping
  holds exactly the entries of the recorded calls, one call for each name.
\<close>

definition entryOf :: "type_formatter \<Rightarrow> definition_type \<Rightarrow> string \<times> schema_definition" where
  "entryOf tf child = (getName child, getDefinition tf (getType child))"

definition consistent :: "type_formatter \<Rightarrow> collector \<Rightarrow> bool" where
  "consistent tf st = (fst st = map (entryOf tf) (snd st) \<and> distinct (map getName (snd st)))"

text \<open>
  A formatter whose every type has the children \<^verbatim>\<open>A\<close>, a type that is no
  \<^verbatim>\<open>DefinitionType\<close>, \<^verbatim>\<open>B\<close> and \<^verbatim>\<open>A\<close> again.
\<close>

definition childA :: definition_type where
  "childA = DefinitionType ''A'' (OtherType ''a'')"

definition childB :: definition_type where
  "childB = DefinitionType ''B'' (OtherType ''b'')"

definition objectSchema :: schema_definition where
  "objectSchema = [(''type'', JString ''object'')]"

definition stringSchema :: schema_definition where
  "stringSchema = [(''type'', JString ''string'')]"

definition sampleFormatter :: type_formatter where
  "sampleFormatter =
     \<lparr>getDefinition = (\<lambda>t. objectSchema),
      getChildren = (\<lambda>t. [IsDefinitionType childA, OtherType ''string'',
                            IsDefinitionType childB, IsDefinitionType childA])\<rparr>"

text \<open>
  Formatters for the collision check: one whose types have three children, of which
  the first and the last are named \<^verbatim>\<open>A\<close> and differ in id; and one that gives the root
  \<^verbatim>\<open>first\<close> one child named \<^verbatim>\<open>A\<close> and every other root a different child named \<^verbatim>\<open>A\<close>.
\<close>

definition otherChildA :: definition_type where
  "otherChildA = DefinitionType ''A'' (OtherType ''a2'')"


definition perRootFormatter :: type_formatter where
  "perRootFormatter =
     \<lparr>getDefinition = (\<lambda>t. objectSchema),
      getChildren = (\<lambda>t. if t = OtherType ''first'' then [IsDefinitionType childA]
                           else [IsDefinitionType otherChildA])\<rparr>"

text \<open>
  A parser that gives every node the same type; a formatter whose definitions carry a
  \<^verbatim>\<open>$schema\<close> field; a formatter whose definitions carry \<^verbatim>\<open>type\<close> and
  \<^verbatim>\<open>definitions\<close> fields and whose types have one child \<^verbatim>\<open>B\<close>; and a program
  whose root file holds no eligible declaration.
\<close>

definition plainParser :: node_parser where
  "plainParser node = OtherType ''root''"

definition schemaOverrideFormatter :: type_formatter where
  "schemaOverrideFormatter =
     \<lparr>getDefinition = (\<lambda>t. [(''$schema'', JString ''http://example.org/custom#'')]),
      getChildren = (\<lambda>t. [])\<rparr>"

definition noRootsProgram :: program where
  "noRootsProgram =
     \<lparr>rootFileNames = [''/src/a.ts''],
      sourceFiles =
        [\<lparr>fileName = ''/src/a.ts'',
          file_node = TsNode SourceFile NoSymbol None [localEnum, exportedGenericInterface]\<rparr>],
      typeChecker = boxChecker\<rparr>"

definition interfaceFormatter :: type_formatter where
  "interfaceFormatter =
     \<lparr>getDefinition = (\<lambda>t. [(''type'', JString ''object''), (''definitions'', JNull)]),
      getChildren = (\<lambda>t. [IsDefinitionType childB])\<rparr>"

section \<open>Properties\<close>

subsection \<open>The symbols of a node\<close>

lemma symbol_TsNode [simp]:
  "symbol (TsNode k (Declared s l) tp cs) = Some s"
  "symbol (TsNode k NoSymbol tp cs) = None"
  by (simp_all add: symbol_def)

lemma localSymbol_TsNode [simp]:
  "localSymbol (TsNode k (Declared s l) tp cs) = l"
  "localSymbol (TsNode k NoSymbol tp cs) = None"
  by (simp_all add: localSymbol_def)

text \<open>A node that passes the export check has a symbol.\<close>

lemma exported_has_symbol: "isExportType node \<Longrightarrow> \<exists>s. symbol node = Some s"
  by (cases node, cases "symbols node") (auto simp: isExportType_def)

subsection \<open>The full name of a declaration\<close>

lemma matchQuoteDot_no_quote: "c \<noteq> dquote \<Longrightarrow> matchQuoteDot (c # cs) = None"
  by (cases cs) auto

lemma matchStarQuoteDot_no_quote: "dquote \<notin> set t \<Longrightarrow> matchStarQuoteDot t = None"
  by (induction t) (auto simp: matchQuoteDot_no_quote)

lemma matchStarQuoteDot_prefix:
  "\<forall>c \<in> set p. \<not> isLineTerminator c \<Longrightarrow> dquote \<notin> set rest \<Longrightarrow>
   matchStarQuoteDot (p @ dquote # CHR ''.'' # rest) = Some rest"
proof (induction p)
  case Nil
  have "matchStarQuoteDot (CHR ''.'' # rest) = None"
    using Nil by (intro matchStarQuoteDot_no_quote) (simp add: dquote_def)
  then show ?case by (simp add: isLineTerminator_def dquote_def)
next
  case (Cons c p)
  then show ?case by simp
qed

lemma stripModulePrefix_no_quote: "dquote \<notin> set n \<Longrightarrow> stripModulePrefix n = n"
  by (induction n) auto

text \<open>
  C8: for a declaration whose symbol is bound, when the checker's name is a leading
  module-path quoting prefix (a double quote, a path free of line terminators, a double
  quote and a dot) followed by a name that holds no double quote, \<^verbatim>\<open>getFullName\<close>
  returns exactly that name; a name that holds no double quote is returned as it is;
  and two checkers that differ only in the module path they put in front of a
  declaration's name give the declaration the same full name.
\<close>

theorem getFullName_strips_leading_prefix:
  assumes "symbol node = Some s"
  shows "(\<forall>p rest. tc s = quotedModuleName p rest
            \<and> (\<forall>c \<in> set p. \<not> isLineTerminator c) \<and> dquote \<notin> set rest
            \<longrightarrow> getFullName tc node = Inr rest)
       \<and> (dquote \<notin> set (tc s) \<longrightarrow> getFullName tc node = Inr (tc s))
       \<and> (\<forall>tc' p p' rest. tc s = quotedModuleName p rest \<and> tc' s = quotedModuleName p' rest
            \<and> (\<forall>c \<in> set p. \<not> isLineTerminator c) \<and> (\<forall>c \<in> set p'. \<not> isLineTerminator c)
            \<and> dquote \<notin> set rest
            \<longrightarrow> getFullName tc node = getFullName tc' node)"
  using assms
  by (auto simp: getFullName_def quotedModuleName_def matchStarQuoteDot_prefix
      stripModulePrefix_no_quote)

theorem getFullName_strips_leading_prefix_witness:
  "symbol exportedPlainInterface = Some (TsSymbol 1 False)
   \<and> modulePathChecker (TsSymbol 1 False) = quotedModuleName ''/src/a'' ''Foo.Bar''
   \<and> otherModuleChecker (TsSymbol 1 False) = quotedModuleName ''/lib/b'' ''Foo.Bar''
   \<and> dquote \<notin> set ''Foo.Bar''
   \<and> getFullName modulePathChecker exportedPlainInterface = Inr ''Foo.Bar''
   \<and> getFullName otherModuleChecker exportedPlainInterface
       = getFullName modulePathChecker exportedPlainInterface
   \<and> dquote \<notin> set (boxChecker (TsSymbol 1 False))
   \<and> getFullName boxChecker exportedPlainInterface = Inr ''Box''"
proof -
  have s: "symbol exportedPlainInterface = Some (TsSymbol 1 False)"
    by (simp add: exportedPlainInterface_def)
  have n: "modulePathChecker (TsSymbol 1 False) = quotedModuleName ''/src/a'' ''Foo.Bar''"
    by (simp add: modulePathChecker_def quotedModuleName_def)
  have n': "otherModuleChecker (TsSymbol 1 False) = quotedModuleName ''/lib/b'' ''Foo.Bar''"
    by (simp add: otherModuleChecker_def quotedModuleName_def)
  have p: "\<forall>c \<in> set ''/src/a''. \<not> isLineTerminator c"
    by (simp add: isLineTerminator_def)
  have p': "\<forall>c \<in> set ''/lib/b''. \<not> isLineTerminator c"
    by (simp add: isLineTerminator_def)
  have r: "dquote \<notin> set ''Foo.Bar''"
    by (simp add: dquote_def)
  have b: "dquote \<notin> set (boxChecker (TsSymbol 1 False))"
    by (simp add: boxChecker_def dquote_def)
  have x: "getFullName modulePathChecker exportedPlainInterface = Inr ''Foo.Bar''"
    using getFullName_strips_leading_prefix [OF s, of modulePathChecker] n p r by blast
  have y: "getFullName otherModuleChecker exportedPlainInterface
             = getFullName modulePathChecker exportedPlainInterface"
    using getFullName_strips_leading_prefix [OF s, of otherModuleChecker] n n' p p' r by blast
  have z: "getFullName boxChecker exportedPlainInterface = Inr ''Box''"
    using getFullName_strips_leading_prefix [OF s, of boxChecker] b
    by (simp add: boxChecker_def)
  show ?thesis using s n n' r b x y z by simp
qed

subsection \<open>Building the index\<close>

lemma recordAll_append: "recordAll tc (xs @ ys) m = recordAll tc ys (recordAll tc xs m)"
  by (simp add: recordAll_def)

lemma allBound_append: "allBound (xs @ ys) \<longleftrightarrow> allBound xs \<and> allBound ys"
  by (auto simp: allBound_def)

text \<open>
  What the traversal returns: it has recorded the eligible declarations in the order it
  reached them, unless one of them has no symbol, in which case it fails; the second
  case is shown below never to arise.
\<close>

lemma inspect_characterised:
  "inspectNode tc node m =
     (if allBound (discovered node) then Inr (recordAll tc (discovered node) m) else Inl TypeError)"
  "inspectChildren tc cs m =
     (if allBound (filter eligible (visitedDeclarationsOf cs))
      then Inr (recordAll tc (filter eligible (visitedDeclarationsOf cs)) m) else Inl TypeError)"
proof (induction tc node m and tc cs m rule: inspectNode_inspectChildren.induct)
  case (1 tc k sy tp cs allTypes)
  show ?case
  proof (cases "isDeclarationKind k")
    case True
    then show ?thesis
      by (cases sy)
         (auto simp: discovered_def eligible_def allBound_def recordAll_def getFullName_def
            fullNameOf_def)
  next
    case False
    then show ?thesis using 1 by (simp add: discovered_def)
  qed
next
  case (2 tc allTypes)
  show ?case by (simp add: allBound_def recordAll_def)
next
  case (3 tc c cs allTypes)
  show ?case
  proof (cases "allBound (discovered c)")
    case True
    then show ?thesis
      using 3 by (simp add: discovered_def [symmetric] recordAll_append allBound_append)
  next
    case False
    then show ?thesis
      using 3 by (simp add: discovered_def [symmetric] allBound_append)
  qed
qed

lemma appendTypes_characterised:
  "appendTypes files tc m =
     (if allBound (discoveredInFiles files) then Inr (recordAll tc (discoveredInFiles files) m)
      else Inl TypeError)"
proof (induction files arbitrary: m)
  case Nil
  show ?case by (simp add: discoveredInFiles_def allBound_def recordAll_def)
next
  case (Cons sf files)
  have d: "discoveredInFiles (sf # files) = discovered (file_node sf) @ discoveredInFiles files"
    by (simp add: discoveredInFiles_def)
  show ?case
    by (simp add: d inspect_characterised(1) Cons.IH recordAll_append allBound_append)
qed

text \<open>
  An eligible declaration has passed the export check, so it has a symbol: the lookup
  in \<^verbatim>\<open>getFullName\<close> finds it.
\<close>

lemma eligible_bound: "eligible d \<Longrightarrow> symbol d \<noteq> None"
  using exported_has_symbol [of d] by (auto simp: eligible_def)

lemma allBound_discovered: "allBound (discovered node)"
  by (simp add: allBound_def discovered_def eligible_bound)

lemma allBound_discoveredInFiles: "allBound (discoveredInFiles files)"
  using allBound_discovered by (auto simp: allBound_def discoveredInFiles_def)

text \<open>
  C9: building the index returns, and raises nothing, for every node, every list of
  source files and every starting index. The result holds the eligible declarations the
  traversal reaches, each recorded under its full name in the order reached; every
  other node is skipped. In particular the symbol lookup of \<^verbatim>\<open>getFullName\<close> returns a
  name for every node that has passed the export check.
\<close>

theorem index_building_total:
  "inspectNode tc node m = Inr (recordAll tc (discovered node) m)
   \<and> appendTypes files tc m = Inr (recordAll tc (discoveredInFiles files) m)
   \<and> (isExportType node \<longrightarrow> (\<exists>name. getFullName tc node = Inr name))"
proof -
  have "isExportType node \<longrightarrow> (\<exists>name. getFullName tc node = Inr name)"
    using exported_has_symbol [of node] by (auto simp: getFullName_def)
  then show ?thesis
    by (simp add: inspect_characterised(1) appendTypes_characterised allBound_discovered
        allBound_discoveredInFiles)
qed

lemma sample_discovered: "discovered sampleFileNode = [exportedPlainInterface]"
  by (simp add: discovered_def sampleFileNode_def localEnum_def exportedPlainInterface_def
      exportedGenericInterface_def isDeclarationKind_def eligible_def isExportType_def
      isGenericType_def)

theorem index_building_total_witness:
  "inspectNode boxChecker sampleFileNode [] = Inr [(''Box'', exportedPlainInterface)]
   \<and> appendTypes [\<lparr>fileName = ''/src/a.ts'', file_node = sampleFileNode\<rparr>] boxChecker []
       = Inr [(''Box'', exportedPlainInterface)]
   \<and> isExportType exportedPlainInterface
   \<and> (\<exists>name. getFullName boxChecker exportedPlainInterface = Inr name)"
proof -
  have r: "recordAll boxChecker [exportedPlainInterface] [] = [(''Box'', exportedPlainInterface)]"
    by (simp add: recordAll_def fullNameOf_def exportedPlainInterface_def boxChecker_def
        dquote_def)
  have e: "isExportType exportedPlainInterface"
    by (simp add: exportedPlainInterface_def isExportType_def)
  have a: "inspectNode boxChecker sampleFileNode [] = Inr [(''Box'', exportedPlainInterface)]"
    using index_building_total [of boxChecker sampleFileNode "[]" "[]"] r
    by (simp add: sample_discovered)
  have b: "appendTypes [\<lparr>fileName = ''/src/a.ts'', file_node = sampleFileNode\<rparr>] boxChecker []
             = Inr [(''Box'', exportedPlainInterface)]"
    using index_building_total
      [of boxChecker sampleFileNode "[]" "[\<lparr>fileName = ''/src/a.ts'', file_node = sampleFileNode\<rparr>]"] r
    by (simp add: sample_discovered discoveredInFiles_def)
  have c: "\<exists>name. getFullName boxChecker exportedPlainInterface = Inr name"
    using index_building_total [of boxChecker exportedPlainInterface "[]" "[]"] e by blast
  show ?thesis using a b c e by simp
qed

subsection \<open>The roots of a wildcard query\<close>

lemma recordAll_Cons:
  "recordAll tc (d # ds) m = recordAll tc ds (AList.update (fullNameOf tc d) d m)"
  by (simp add: recordAll_def)

lemma recordAll_Nil: "recordAll tc [] m = m"
  by (simp add: recordAll_def)

lemma map_of_recordAll:
  "map_of (recordAll tc ds m) = map_of m ++ map_of (rev (namePairs tc ds))"
proof (induction ds arbitrary: m)
  case Nil
  show ?case by (simp add: recordAll_Nil namePairs_def)
next
  case (Cons d ds)
  have u: "map_of (AList.update (fullNameOf tc d) d m) = (map_of m)(fullNameOf tc d \<mapsto> d)"
    by (rule update_conv')
  have "map_of (recordAll tc (d # ds) m)
          = (map_of m)(fullNameOf tc d \<mapsto> d) ++ map_of (rev (namePairs tc ds))"
    unfolding recordAll_Cons Cons.IH u ..
  also have "\<dots> = map_of m ++ map_of (rev (namePairs tc (d # ds)))"
    by (simp add: namePairs_def fun_eq_iff map_add_def split: option.splits)
  finally show ?case .
qed

lemma distinct_recordAll:
  "distinct (map fst m) \<Longrightarrow> distinct (map fst (recordAll tc ds m))"
  by (induction ds arbitrary: m) (simp_all add: recordAll_Nil recordAll_Cons distinct_update)

lemma keys_recordAll:
  "fst ` set (recordAll tc ds m) = fst ` set m \<union> fullNameOf tc ` set ds"
  by (induction ds arbitrary: m) (auto simp: recordAll_Nil recordAll_Cons dom_update)

lemma update_absent: "k \<notin> fst ` set al \<Longrightarrow> AList.update k v al = al @ [(k, v)]"
  by (induction al) auto

lemma recordAll_distinct_names:
  "distinct (map (fullNameOf tc) ds) \<Longrightarrow> fullNameOf tc ` set ds \<inter> fst ` set m = {} \<Longrightarrow>
   recordAll tc ds m = m @ namePairs tc ds"
proof (induction ds arbitrary: m)
  case Nil
  show ?case by (simp add: recordAll_Nil namePairs_def)
next
  case (Cons d ds)
  have a: "AList.update (fullNameOf tc d) d m = m @ [(fullNameOf tc d, d)]"
    using Cons.prems by (intro update_absent) auto
  have "recordAll tc ds (m @ [(fullNameOf tc d, d)]) = (m @ [(fullNameOf tc d, d)]) @ namePairs tc ds"
    using Cons.prems by (intro Cons.IH) auto
  then show ?case by (simp add: recordAll_Cons a namePairs_def)
qed

lemma map_of_rev_namePairs:
  "map_of (rev (namePairs tc ds)) n =
     (if filter (\<lambda>d. fullNameOf tc d = n) ds = [] then None
      else Some (last (filter (\<lambda>d. fullNameOf tc d = n) ds)))"
  by (induction ds rule: rev_induct) (auto simp: namePairs_def)

lemma entries_recordAll:
  assumes "(n, d) \<in> set (recordAll tc ds [])"
  shows "d \<in> set ds \<and> fullNameOf tc d = n"
proof -
  have "distinct (map fst (recordAll tc ds []))" by (simp add: distinct_recordAll)
  then have "map_of (recordAll tc ds []) n = Some d" using assms by simp
  then have "map_of (rev (namePairs tc ds)) n = Some d" by (simp add: map_of_recordAll)
  then have "(n, d) \<in> set (rev (namePairs tc ds))" by (rule map_of_SomeD)
  then show ?thesis by (auto simp: namePairs_def)
qed

lemma last_recorded:
  assumes "d \<in> set ds"
  shows "last (filter (\<lambda>d'. fullNameOf tc d' = fullNameOf tc d) ds) \<in> snd ` set (recordAll tc ds [])"
proof -
  let ?n = "fullNameOf tc d"
  have ne: "filter (\<lambda>d'. fullNameOf tc d' = ?n) ds \<noteq> []"
    using assms by (auto simp: filter_empty_conv)
  have "map_of (recordAll tc ds []) ?n = Some (last (filter (\<lambda>d'. fullNameOf tc d' = ?n) ds))"
    using ne by (simp add: map_of_recordAll map_of_rev_namePairs)
  then have "(?n, last (filter (\<lambda>d'. fullNameOf tc d' = ?n) ds)) \<in> set (recordAll tc ds [])"
    by (rule map_of_SomeD)
  then show ?thesis by force
qed

lemma names_recordAll:
  "map (fullNameOf tc) (map snd (recordAll tc ds [])) = map fst (recordAll tc ds [])"
  using entries_recordAll [of _ _ tc ds] by (auto intro: map_cong)

lemma getRootNodes_wildcard:
  "\<not> isNamedQuery q \<Longrightarrow>
   getRootNodes prog q =
     (if allBound (discoveredInFiles (rootSourceFiles prog))
      then Inr (map snd (recordAll (typeChecker prog) (discoveredInFiles (rootSourceFiles prog)) []))
      else Inl TypeError)"
  by (simp add: getRootNodes_def appendTypes_characterised)

lemma sample_roots:
  "discoveredInFiles (rootSourceFiles sampleProgram) = [exportedPlainInterface]"
  by (simp add: discoveredInFiles_def rootSourceFiles_def sampleProgram_def sample_discovered)

text \<open>
  C5, as the claim states it, fails: the index is keyed by full name, and the module
  prefix is stripped from the name. Two root files that each export \<^verbatim>\<open>Foo\<close> yield two
  eligible declarations and one root; the first declaration is not returned.
\<close>

theorem same_name_roots_collapse:
  "discoveredInFiles (rootSourceFiles twoFooProgram) = [exportedPlainInterface, fooInB]
   \<and> exportedPlainInterface \<noteq> fooInB
   \<and> getRootNodes twoFooProgram None = Inr [fooInB]"
  by (simp add: discoveredInFiles_def rootSourceFiles_def twoFooProgram_def discovered_def
      eligible_def isExportType_def isGenericType_def isDeclarationKind_def
      exportedPlainInterface_def fooInB_def getRootNodes_def isNamedQuery_def
      getFullName_def fooChecker_def dquote_def isLineTerminator_def)

text \<open>
  C5, amended: for a wildcard, empty or absent query, \<^verbatim>\<open>getRootNodes\<close> builds the index
  over exactly the source files whose name is among the root file names and, when each
  eligible declaration found there has a symbol, returns one declaration for each
  distinct full name: the roots are eligible declarations found there, their full names
  are pairwise distinct and are all the full names found, and for each name the root is
  the last declaration found with that name. When the full names found are pairwise
  distinct, the roots are the eligible declarations found, each once, in discovery order.
\<close>

theorem wildcard_roots:
  assumes "\<not> isNamedQuery q"
    and "allBound (discoveredInFiles (rootSourceFiles prog))"
  shows "\<exists>rs. getRootNodes prog q = Inr rs
           \<and> set rs \<subseteq> set (discoveredInFiles (rootSourceFiles prog))
           \<and> distinct (map (fullNameOf (typeChecker prog)) rs)
           \<and> fullNameOf (typeChecker prog) ` set rs
               = fullNameOf (typeChecker prog) ` set (discoveredInFiles (rootSourceFiles prog))
           \<and> (\<forall>d \<in> set (discoveredInFiles (rootSourceFiles prog)).
                 last (filter (\<lambda>d'. fullNameOf (typeChecker prog) d' = fullNameOf (typeChecker prog) d)
                         (discoveredInFiles (rootSourceFiles prog))) \<in> set rs)
           \<and> (distinct (map (fullNameOf (typeChecker prog)) (discoveredInFiles (rootSourceFiles prog)))
                \<longrightarrow> rs = discoveredInFiles (rootSourceFiles prog))"
proof -
  let ?tc = "typeChecker prog"
  let ?D = "discoveredInFiles (rootSourceFiles prog)"
  let ?rs = "map snd (recordAll ?tc ?D [])"
  have r: "getRootNodes prog q = Inr ?rs"
    using assms by (simp add: getRootNodes_wildcard)
  have s: "set ?rs \<subseteq> set ?D"
    using entries_recordAll [of _ _ ?tc ?D] by auto
  have n: "map (fullNameOf ?tc) ?rs = map fst (recordAll ?tc ?D [])"
    by (rule names_recordAll)
  have d: "distinct (map (fullNameOf ?tc) ?rs)"
    unfolding n by (simp add: distinct_recordAll)
  have "set (map (fullNameOf ?tc) ?rs) = fullNameOf ?tc ` set ?D"
    unfolding n by (simp add: keys_recordAll)
  then have k: "fullNameOf ?tc ` set ?rs = fullNameOf ?tc ` set ?D"
    by (simp only: set_map)
  have l: "\<forall>d \<in> set ?D. last (filter (\<lambda>d'. fullNameOf ?tc d' = fullNameOf ?tc d) ?D) \<in> set ?rs"
    using last_recorded [of _ ?D ?tc] by simp
  have e: "distinct (map (fullNameOf ?tc) ?D) \<longrightarrow> ?rs = ?D"
  proof
    assume "distinct (map (fullNameOf ?tc) ?D)"
    then have "recordAll ?tc ?D [] = [] @ namePairs ?tc ?D"
      by (intro recordAll_distinct_names) simp_all
    then show "?rs = ?D" by (simp add: namePairs_def comp_def)
  qed
  show ?thesis using r s d k l e by blast
qed

theorem wildcard_roots_witness:
  "\<not> isNamedQuery (Some ''*'')
   \<and> allBound (discoveredInFiles (rootSourceFiles sampleProgram))
   \<and> getRootNodes sampleProgram (Some ''*'') = Inr [exportedPlainInterface]"
proof -
  have q: "\<not> isNamedQuery (Some ''*'')"
    by (simp add: isNamedQuery_def)
  have b: "allBound (discoveredInFiles (rootSourceFiles sampleProgram))"
    by (simp add: sample_roots allBound_def exportedPlainInterface_def)
  have d: "distinct (map (fullNameOf (typeChecker sampleProgram))
             (discoveredInFiles (rootSourceFiles sampleProgram)))"
    by (simp add: sample_roots)
  from wildcard_roots [OF q b] d
  have "getRootNodes sampleProgram (Some ''*'')
          = Inr (discoveredInFiles (rootSourceFiles sampleProgram))"
    by blast
  then show ?thesis using q b by (simp add: sample_roots)
qed

subsection \<open>Which declarations are in the index\<close>

lemma discoveredInFiles_filter:
  "discoveredInFiles files = filter eligible (visitedInFiles files)"
  by (induction files) (simp_all add: discoveredInFiles_def visitedInFiles_def discovered_def)

lemma visited_kinds:
  "\<forall>d \<in> set (visitedDeclarations node). isDeclarationKind (kind d)"
  "\<forall>d \<in> set (visitedDeclarationsOf cs). isDeclarationKind (kind d)"
  by (induction node and cs rule: visitedDeclarations_visitedDeclarationsOf.induct) auto

lemma visitedInFiles_kinds: "\<forall>d \<in> set (visitedInFiles files). isDeclarationKind (kind d)"
  using visited_kinds(1) by (auto simp: visitedInFiles_def)

lemma recorded_iff_last:
  "d \<in> snd ` set (recordAll tc ds []) \<longleftrightarrow>
     d \<in> set ds \<and> last (filter (\<lambda>d'. fullNameOf tc d' = fullNameOf tc d) ds) = d"
proof
  assume "d \<in> snd ` set (recordAll tc ds [])"
  then obtain n where n: "(n, d) \<in> set (recordAll tc ds [])"
    by force
  have e: "d \<in> set ds" "fullNameOf tc d = n"
    using entries_recordAll [OF n] by simp_all
  have "distinct (map fst (recordAll tc ds []))"
    by (simp add: distinct_recordAll)
  then have "map_of (recordAll tc ds []) n = Some d"
    using n by simp
  then have "map_of (rev (namePairs tc ds)) n = Some d"
    by (simp add: map_of_recordAll)
  then have "last (filter (\<lambda>d'. fullNameOf tc d' = n) ds) = d"
    by (simp add: map_of_rev_namePairs split: if_splits)
  then show "d \<in> set ds \<and> last (filter (\<lambda>d'. fullNameOf tc d' = fullNameOf tc d) ds) = d"
    using e by simp
next
  assume a: "d \<in> set ds \<and> last (filter (\<lambda>d'. fullNameOf tc d' = fullNameOf tc d) ds) = d"
  then have "last (filter (\<lambda>d'. fullNameOf tc d' = fullNameOf tc d) ds)
               \<in> snd ` set (recordAll tc ds [])"
    using last_recorded [of d ds tc] by simp
  then show "d \<in> snd ` set (recordAll tc ds [])"
    using a by simp
qed

text \<open>
  C4, as the claim states it, fails: the claim lets the type-parameter test apply to
  type aliases only, so an exported generic interface would be indexed. The code applies
  \<^verbatim>\<open>isGenericType\<close> to all four kinds, and \<^verbatim>\<open>export interface Box<T> {}\<close> is skipped.
\<close>

theorem generic_interface_not_recorded:
  "kind exportedGenericInterface = InterfaceDeclaration
   \<and> isExportType exportedGenericInterface
   \<and> \<not> recordedIn boxChecker exportedGenericInterface"
  by (simp add: exportedGenericInterface_def recordedIn_def isExportType_def isGenericType_def
      isDeclarationKind_def)

text \<open>
  C4, amended: building the index over a list of source files returns an index, and a
  node is in that index if and only if the traversal reaches it as a declaration of
  kind interface, class, enum or type alias, its local symbol carries the property
  \<^verbatim>\<open>exportSymbol\<close> (the test the code makes for being exported), it declares no type
  parameter, whatever its kind, and no eligible declaration reached after it has the
  same full name.
\<close>

theorem declaration_indexed_iff:
  "\<exists>idx. appendTypes files tc [] = Inr idx
     \<and> (\<forall>d. d \<in> snd ` set idx \<longleftrightarrow>
            d \<in> set (visitedInFiles files) \<and> isExportType d \<and> \<not> isGenericType d
            \<and> last (filter (\<lambda>d'. fullNameOf tc d' = fullNameOf tc d)
                   (discoveredInFiles files)) = d)
     \<and> (\<forall>d \<in> set (visitedInFiles files). isDeclarationKind (kind d))"
proof -
  let ?D = "discoveredInFiles files"
  have i: "appendTypes files tc [] = Inr (recordAll tc ?D [])"
    by (simp add: appendTypes_characterised allBound_discoveredInFiles)
  have m: "\<And>d. d \<in> set ?D \<longleftrightarrow>
             d \<in> set (visitedInFiles files) \<and> isExportType d \<and> \<not> isGenericType d"
    by (auto simp: discoveredInFiles_filter eligible_def)
  have "\<forall>d. d \<in> snd ` set (recordAll tc ?D []) \<longleftrightarrow>
            d \<in> set (visitedInFiles files) \<and> isExportType d \<and> \<not> isGenericType d
            \<and> last (filter (\<lambda>d'. fullNameOf tc d' = fullNameOf tc d) ?D) = d"
    unfolding recorded_iff_last m by blast
  then show ?thesis
    using i visitedInFiles_kinds by blast
qed

lemma sample_visited:
  "visitedInFiles [\<lparr>fileName = ''/src/a.ts'', file_node = sampleFileNode\<rparr>]
     = [localEnum, exportedPlainInterface, exportedGenericInterface]"
  by (simp add: visitedInFiles_def sampleFileNode_def localEnum_def exportedPlainInterface_def
      exportedGenericInterface_def isDeclarationKind_def)

lemma sample_index:
  "appendTypes [\<lparr>fileName = ''/src/a.ts'', file_node = sampleFileNode\<rparr>] boxChecker []
     = Inr [(''Box'', exportedPlainInterface)]"
proof -
  let ?files = "[\<lparr>fileName = ''/src/a.ts'', file_node = sampleFileNode\<rparr>]"
  have a: "appendTypes ?files boxChecker []
             = Inr (recordAll boxChecker (discoveredInFiles ?files) [])"
    by (simp only: appendTypes_characterised allBound_discoveredInFiles if_True)
  have d: "discoveredInFiles ?files = [exportedPlainInterface]"
    by (simp add: discoveredInFiles_def sample_discovered)
  have r: "recordAll boxChecker [exportedPlainInterface] [] = [(''Box'', exportedPlainInterface)]"
    by (simp add: recordAll_def fullNameOf_def exportedPlainInterface_def boxChecker_def
        dquote_def)
  show ?thesis
    unfolding a d r ..
qed

theorem declaration_indexed_iff_witness:
  "appendTypes [\<lparr>fileName = ''/src/a.ts'', file_node = sampleFileNode\<rparr>] boxChecker []
     = Inr [(''Box'', exportedPlainInterface)]
   \<and> visitedInFiles [\<lparr>fileName = ''/src/a.ts'', file_node = sampleFileNode\<rparr>]
     = [localEnum, exportedPlainInterface, exportedGenericInterface]
   \<and> isExportType exportedGenericInterface \<and> isGenericType exportedGenericInterface
   \<and> exportedGenericInterface \<notin> snd ` set [(''Box'', exportedPlainInterface)]
   \<and> \<not> isExportType localEnum
   \<and> localEnum \<notin> snd ` set [(''Box'', exportedPlainInterface)]"
proof -
  obtain idx where
    i: "appendTypes [\<lparr>fileName = ''/src/a.ts'', file_node = sampleFileNode\<rparr>] boxChecker []
          = Inr idx"
    and m: "\<forall>d. d \<in> snd ` set idx \<longleftrightarrow>
              d \<in> set (visitedInFiles [\<lparr>fileName = ''/src/a.ts'', file_node = sampleFileNode\<rparr>])
              \<and> isExportType d \<and> \<not> isGenericType d
              \<and> last (filter (\<lambda>d'. fullNameOf boxChecker d' = fullNameOf boxChecker d)
                     (discoveredInFiles [\<lparr>fileName = ''/src/a.ts'', file_node = sampleFileNode\<rparr>]))
                  = d"
    using declaration_indexed_iff
      [of "[\<lparr>fileName = ''/src/a.ts'', file_node = sampleFileNode\<rparr>]" boxChecker]
    by blast
  have x: "idx = [(''Box'', exportedPlainInterface)]"
    using i sample_index by simp
  have g: "isExportType exportedGenericInterface \<and> isGenericType exportedGenericInterface"
    by (simp add: exportedGenericInterface_def isExportType_def isGenericType_def)
  have l: "\<not> isExportType localEnum"
    by (simp add: localEnum_def isExportType_def)
  have "exportedGenericInterface \<notin> snd ` set idx"
    using m g by blast
  moreover have "localEnum \<notin> snd ` set idx"
    using m l by blast
  ultimately show ?thesis
    using x g l sample_index sample_visited by simp
qed

subsection \<open>Looking a name up\<close>

lemma partitionLoop_filter:
  "partitionLoop sfs (ps, es) =
     (ps @ filter (\<lambda>sf. \<not> isExternalFile sf) sfs, es @ filter isExternalFile sfs)"
  by (induction sfs arbitrary: ps es) auto

lemma partitionFiles_filter: "partitionFiles prog = (projectFilesOf prog, externalFilesOf prog)"
  by (simp add: partitionFiles_def partitionLoop_filter projectFilesOf_def externalFilesOf_def)

lemma findNamedNode_project_hit:
  assumes "appendTypes (projectFilesOf prog) (typeChecker prog) [] = Inr projectIndex"
    and "map_of projectIndex fullName = Some node"
  shows "findNamedNode prog fullName = Inr node"
  using assms by (simp add: findNamedNode_def partitionFiles_filter)

lemma appendTypes_onto:
  assumes "appendTypes files tc [] = Inr idx"
  shows "\<exists>idx'. appendTypes files tc m = Inr idx'
           \<and> map_of idx' = map_of m ++ map_of idx"
proof -
  have b: "allBound (discoveredInFiles files)"
    using assms by (simp add: appendTypes_characterised split: if_splits)
  then have i: "idx = recordAll tc (discoveredInFiles files) []"
    using assms by (simp add: appendTypes_characterised)
  have "appendTypes files tc m = Inr (recordAll tc (discoveredInFiles files) m)"
    using b by (simp add: appendTypes_characterised)
  moreover have "map_of (recordAll tc (discoveredInFiles files) m) = map_of m ++ map_of idx"
    by (simp add: i map_of_recordAll)
  ultimately show ?thesis by blast
qed

lemma findNamedNode_characterised:
  assumes "appendTypes (projectFilesOf prog) (typeChecker prog) [] = Inr projectIndex"
    and "appendTypes (externalFilesOf prog) (typeChecker prog) [] = Inr externalIndex"
  shows "findNamedNode prog fullName =
           (case map_of projectIndex fullName of
              Some node \<Rightarrow> Inr node
            | None \<Rightarrow>
                (case map_of externalIndex fullName of
                   Some node \<Rightarrow> Inr node
                 | None \<Rightarrow> Inl (NoRootTypeError fullName)))"
proof (cases "map_of projectIndex fullName")
  case (Some node)
  then show ?thesis using assms(1) by (simp add: findNamedNode_project_hit)
next
  case None
  obtain merged where m: "appendTypes (externalFilesOf prog) (typeChecker prog) projectIndex = Inr merged"
    and mm: "map_of merged = map_of projectIndex ++ map_of externalIndex"
    using appendTypes_onto [OF assms(2)] by blast
  have "map_of merged fullName = map_of externalIndex fullName"
    using None by (simp add: mm map_add_def split: option.splits)
  then show ?thesis
    using None assms(1) m by (simp add: findNamedNode_def partitionFiles_filter)
qed

lemma shadow_project_files:
  "projectFilesOf shadowProgram =
     [\<lparr>fileName = ''/src/a.ts'',
       file_node = TsNode SourceFile NoSymbol None [exportedPlainInterface]\<rparr>]"
  by (simp add: projectFilesOf_def shadowProgram_def isExternalFile_def)

lemma shadow_external_files:
  "externalFilesOf shadowProgram =
     [\<lparr>fileName = ''/proj/node_modules/lib/index.d.ts'',
       file_node = TsNode SourceFile NoSymbol None [fooInB]\<rparr>]"
  by (simp add: externalFilesOf_def shadowProgram_def isExternalFile_def)

lemma shadow_checker: "typeChecker shadowProgram = fooChecker"
  by (simp add: shadowProgram_def)

lemma shadow_project_index:
  "appendTypes (projectFilesOf shadowProgram) (typeChecker shadowProgram) []
     = Inr [(''Foo'', exportedPlainInterface)]"
  by (simp add: shadow_project_files shadow_checker exportedPlainInterface_def
      isDeclarationKind_def isExportType_def isGenericType_def getFullName_def fooChecker_def
      dquote_def isLineTerminator_def)

lemma shadow_external_index:
  "appendTypes (externalFilesOf shadowProgram) (typeChecker shadowProgram) []
     = Inr [(''Foo'', fooInB)]"
  by (simp add: shadow_external_files shadow_checker fooInB_def
      isDeclarationKind_def isExportType_def isGenericType_def getFullName_def fooChecker_def
      dquote_def isLineTerminator_def)

text \<open>
  C2: when the index over the project files holds the name, \<^verbatim>\<open>findNamedNode\<close> returns
  the declaration stored there, whatever the external files hold: the theorem has no
  hypothesis on them, so neither their index nor a failure to build it changes the
  result. The project files are the source files whose name does not contain
  \<^verbatim>\<open>/node_modules/\<close>.
\<close>

theorem project_declaration_shadows_external:
  assumes "appendTypes (projectFilesOf prog) (typeChecker prog) [] = Inr projectIndex"
    and "map_of projectIndex fullName = Some node"
  shows "findNamedNode prog fullName = Inr node
       \<and> partitionFiles prog = (projectFilesOf prog, externalFilesOf prog)"
  using assms by (simp add: findNamedNode_project_hit partitionFiles_filter)

theorem project_declaration_shadows_external_witness:
  "appendTypes (projectFilesOf shadowProgram) (typeChecker shadowProgram) []
     = Inr [(''Foo'', exportedPlainInterface)]
   \<and> appendTypes (externalFilesOf shadowProgram) (typeChecker shadowProgram) []
     = Inr [(''Foo'', fooInB)]
   \<and> exportedPlainInterface \<noteq> fooInB
   \<and> findNamedNode shadowProgram ''Foo'' = Inr exportedPlainInterface"
proof -
  have m: "map_of [(''Foo'', exportedPlainInterface)] ''Foo'' = Some exportedPlainInterface"
    by simp
  have d: "exportedPlainInterface \<noteq> fooInB"
    by (simp add: exportedPlainInterface_def fooInB_def)
  show ?thesis
    using project_declaration_shadows_external [OF shadow_project_index m]
      shadow_project_index shadow_external_index d by simp
qed

text \<open>
  C6: when the index over the project files and the index over the external files are
  both built, \<^verbatim>\<open>findNamedNode\<close> raises \<^verbatim>\<open>NoRootTypeError\<close> with the requested name if and
  only if the name is in neither index; when the name is in one of them, it returns a
  declaration stored under that name and raises nothing.
\<close>

theorem findNamedNode_fails_iff_absent:
  assumes "appendTypes (projectFilesOf prog) (typeChecker prog) [] = Inr projectIndex"
    and "appendTypes (externalFilesOf prog) (typeChecker prog) [] = Inr externalIndex"
  shows "(findNamedNode prog fullName = Inl (NoRootTypeError fullName)
            \<longleftrightarrow> map_of projectIndex fullName = None \<and> map_of externalIndex fullName = None)
       \<and> (map_of projectIndex fullName \<noteq> None \<or> map_of externalIndex fullName \<noteq> None
            \<longrightarrow> (\<exists>node. findNamedNode prog fullName = Inr node
                   \<and> (map_of projectIndex fullName = Some node
                      \<or> map_of externalIndex fullName = Some node)))"
  by (auto simp: findNamedNode_characterised [OF assms] split: option.splits)

theorem findNamedNode_fails_iff_absent_witness:
  "appendTypes (projectFilesOf shadowProgram) (typeChecker shadowProgram) []
     = Inr [(''Foo'', exportedPlainInterface)]
   \<and> appendTypes (externalFilesOf shadowProgram) (typeChecker shadowProgram) []
     = Inr [(''Foo'', fooInB)]
   \<and> findNamedNode shadowProgram ''Bar'' = Inl (NoRootTypeError ''Bar'')
   \<and> (\<exists>node. findNamedNode shadowProgram ''Foo'' = Inr node)"
proof -
  have "findNamedNode shadowProgram ''Bar'' = Inl (NoRootTypeError ''Bar'')"
    using findNamedNode_fails_iff_absent [OF shadow_project_index shadow_external_index, of "''Bar''"]
    by simp
  moreover have "\<exists>node. findNamedNode shadowProgram ''Foo'' = Inr node"
    using findNamedNode_fails_iff_absent [OF shadow_project_index shadow_external_index, of "''Foo''"]
    by auto
  ultimately show ?thesis
    using shadow_project_index shadow_external_index by simp
qed

subsection \<open>Materializing definitions\<close>

lemma not_inObject_absent: "\<not> inObject n obj \<Longrightarrow> n \<notin> fst ` set obj"
  by (simp add: inObject_def)

lemma inObject_append: "inObject n (obj @ ext) \<longleftrightarrow> inObject n obj \<or> n \<in> fst ` set ext"
  by (auto simp: inObject_def)

lemma materialize_appends:
  "\<exists>new. materialize tf cs (defs, calls) = (defs @ map (entryOf tf) new, calls @ new)
         \<and> set new \<subseteq> set cs
         \<and> (\<forall>c \<in> set new. \<not> inObject (getName c) defs)
         \<and> distinct (map getName new)"
proof (induction cs arbitrary: defs calls)
  case Nil
  show ?case by simp
next
  case (Cons c cs)
  show ?case
  proof (cases "inObject (getName c) defs")
    case True
    obtain new where n: "materialize tf cs (defs, calls) = (defs @ map (entryOf tf) new, calls @ new)"
      "set new \<subseteq> set cs" "\<forall>c \<in> set new. \<not> inObject (getName c) defs" "distinct (map getName new)"
      using Cons.IH [of defs calls] by blast
    show ?thesis
      using True n by (intro exI [of _ new]) auto
  next
    case False
    let ?defs1 = "defs @ [entryOf tf c]"
    have u: "AList.update (getName c) (getDefinition tf (getType c)) defs = ?defs1"
      using False by (simp add: update_absent not_inObject_absent entryOf_def)
    obtain new where n: "materialize tf cs (?defs1, calls @ [c])
                           = (?defs1 @ map (entryOf tf) new, (calls @ [c]) @ new)"
      "set new \<subseteq> set cs" "\<forall>c' \<in> set new. \<not> inObject (getName c') ?defs1"
      "distinct (map getName new)"
      using Cons.IH [of ?defs1 "calls @ [c]"] by blast
    have a: "\<forall>c' \<in> set new. \<not> inObject (getName c') defs \<and> getName c' \<noteq> getName c"
      using n(3) by (auto simp: inObject_append entryOf_def)
    have "materialize tf (c # cs) (defs, calls) = (defs @ map (entryOf tf) (c # new), calls @ (c # new))"
      using False u n(1) by simp
    moreover have "set (c # new) \<subseteq> set (c # cs)" using n(2) by auto
    moreover have "\<forall>c' \<in> set (c # new). \<not> inObject (getName c') defs" using False a by simp
    moreover have "distinct (map getName (c # new))" using n(4) a by auto
    ultimately show ?thesis by blast
  qed
qed

lemma appendRootChildDefinitions_appends:
  assumes "appendRootChildDefinitions tf rootType (defs, calls) = Inr (defs', calls')"
  shows "\<exists>new. defs' = defs @ map (entryOf tf) new \<and> calls' = calls @ new
           \<and> set new \<subseteq> set (dedupedChildren tf rootType)
           \<and> (\<forall>c \<in> set new. \<not> inObject (getName c) defs)
           \<and> distinct (map getName new)"
proof -
  have "materialize tf (dedupedChildren tf rootType) (defs, calls) = (defs', calls')"
    using assms by (simp add: appendRootChildDefinitions_def split: sum.splits)
  then show ?thesis
    using materialize_appends [of tf "dedupedChildren tf rootType" defs calls] by auto
qed

lemma consistent_step:
  assumes "consistent tf st" and "appendRootChildDefinitions tf rootType st = Inr st'"
  shows "consistent tf st'"
proof -
  obtain defs calls defs' calls' where s: "st = (defs, calls)" "st' = (defs', calls')"
    by (cases st, cases st') auto
  obtain new where n: "defs' = defs @ map (entryOf tf) new" "calls' = calls @ new"
    "\<forall>c \<in> set new. \<not> inObject (getName c) defs" "distinct (map getName new)"
    using appendRootChildDefinitions_appends assms(2) s by blast
  have d: "defs = map (entryOf tf) calls" "distinct (map getName calls)"
    using assms(1) s by (simp_all add: consistent_def)
  have k: "fst ` set defs = getName ` set calls"
    by (force simp: d(1) entryOf_def)
  have "getName ` set calls \<inter> getName ` set new = {}"
  proof (rule ccontr)
    assume "getName ` set calls \<inter> getName ` set new \<noteq> {}"
    then obtain x where x: "x \<in> getName ` set calls" "x \<in> getName ` set new"
      by blast
    from x(2) obtain c where c: "c \<in> set new" "x = getName c"
      by blast
    have "\<not> inObject (getName c) defs"
      using n(3) c(1) by blast
    then have "getName c \<notin> fst ` set defs"
      by (rule not_inObject_absent)
    then show False
      using x(1) c(2) k by simp
  qed
  then show ?thesis
    using n d by (simp add: consistent_def s)
qed

lemma consistent_loop:
  "consistent tf st \<Longrightarrow> appendAllRoots tf roots st = Inr st' \<Longrightarrow> consistent tf st'"
proof (induction roots arbitrary: st)
  case Nil
  then show ?case by simp
next
  case (Cons r roots)
  then show ?case by (auto split: sum.splits dest: consistent_step)
qed

lemma consistent_empty: "consistent tf ([], [])"
  by (simp add: consistent_def)

lemma sample_children: "dedupedChildren sampleFormatter rootType = [childA, childB]"
  by (simp add: dedupedChildren_def sampleFormatter_def childA_def childB_def)

lemma sample_check: "checkCollisions Map.empty [childA, childB] = Inr ()"
  by (simp add: childA_def childB_def)

lemma sample_append_existing:
  "appendRootChildDefinitions sampleFormatter (OtherType ''root'') ([(''A'', stringSchema)], [])
     = Inr ([(''A'', stringSchema), (''B'', objectSchema)], [childB])"
  by (simp add: appendRootChildDefinitions_def sample_children sample_check)
     (simp add: childA_def childB_def inObject_def objectPrototypeKeys_def sampleFormatter_def)

lemma sample_append_all:
  "appendAllRoots sampleFormatter [OtherType ''root'', OtherType ''other''] ([], [])
     = Inr ([(''A'', objectSchema), (''B'', objectSchema)], [childA, childB])"
  by (simp add: appendRootChildDefinitions_def sample_children sample_check)
     (simp add: childA_def childB_def inObject_def objectPrototypeKeys_def sampleFormatter_def)

text \<open>
  C7: a call of \<^verbatim>\<open>appendRootChildDefinitions\<close> that returns leaves every entry of the
  mapping it was given as it was and only appends entries; \<^verbatim>\<open>getDefinition\<close> is called
  for no child whose name is already a key, and at most once for a name. Over the
  repeated calls that fill one shared mapping from the empty one, the mapping holds
  exactly one entry for each call of \<^verbatim>\<open>getDefinition\<close> and no two calls are for the
  same name. (A call that raises does so before it writes anything.)
\<close>

theorem definitions_never_overwritten:
  "(appendRootChildDefinitions tf rootType (defs, calls) = Inr (defs', calls') \<longrightarrow>
      (\<forall>n d. map_of defs n = Some d \<longrightarrow> map_of defs' n = Some d)
      \<and> (\<exists>new. defs' = defs @ map (entryOf tf) new \<and> calls' = calls @ new
             \<and> (\<forall>c \<in> set new. getName c \<notin> fst ` set defs)
             \<and> distinct (map getName new)))
   \<and> (appendAllRoots tf roots ([], []) = Inr (allDefs, allCalls) \<longrightarrow>
        allDefs = map (entryOf tf) allCalls \<and> distinct (map getName allCalls))"
proof (intro conjI impI)
  assume a: "appendRootChildDefinitions tf rootType (defs, calls) = Inr (defs', calls')"
  then obtain new where n: "defs' = defs @ map (entryOf tf) new" "calls' = calls @ new"
    "\<forall>c \<in> set new. \<not> inObject (getName c) defs" "distinct (map getName new)"
    using appendRootChildDefinitions_appends by blast
  show "\<forall>n d. map_of defs n = Some d \<longrightarrow> map_of defs' n = Some d"
    by (simp add: n(1) map_add_def)
  show "\<exists>new. defs' = defs @ map (entryOf tf) new \<and> calls' = calls @ new
             \<and> (\<forall>c \<in> set new. getName c \<notin> fst ` set defs)
             \<and> distinct (map getName new)"
    using n by (intro exI [of _ new]) (simp add: inObject_def)
next
  assume "appendAllRoots tf roots ([], []) = Inr (allDefs, allCalls)"
  then have "consistent tf (allDefs, allCalls)"
    using consistent_loop [OF consistent_empty] by blast
  then show "allDefs = map (entryOf tf) allCalls" "distinct (map getName allCalls)"
    by (simp_all add: consistent_def)
qed
theorem definitions_never_overwritten_witness:
  "appendRootChildDefinitions sampleFormatter (OtherType ''root'') ([(''A'', stringSchema)], [])
     = Inr ([(''A'', stringSchema), (''B'', objectSchema)], [childB])
   \<and> map_of [(''A'', stringSchema), (''B'', objectSchema)] ''A'' = Some stringSchema
   \<and> appendAllRoots sampleFormatter [OtherType ''root'', OtherType ''other''] ([], [])
     = Inr ([(''A'', objectSchema), (''B'', objectSchema)], [childA, childB])
   \<and> distinct (map getName [childA, childB])"
proof -
  note t = definitions_never_overwritten
    [of sampleFormatter "OtherType ''root''" "[(''A'', stringSchema)]" "[]"
        "[(''A'', stringSchema), (''B'', objectSchema)]" "[childB]"
        "[OtherType ''root'', OtherType ''other'']"
        "[(''A'', objectSchema), (''B'', objectSchema)]" "[childA, childB]"]
  have a: "map_of [(''A'', stringSchema), (''B'', objectSchema)] ''A'' = Some stringSchema"
    using t sample_append_existing by simp
  have b: "distinct (map getName [childA, childB])"
    using t sample_append_all by blast
  show ?thesis
    using a b sample_append_existing sample_append_all by simp
qed

subsection \<open>The collision check\<close>






text \<open>
  The check runs once for each root, on that root's children only: two roots whose
  children share a name and differ in id raise nothing, and the child of the later
  root is not materialized.
\<close>

lemma cross_root_same_name_not_detected:
  "appendAllRoots perRootFormatter [OtherType ''first'', OtherType ''second''] ([], [])
     = Inr ([(''A'', objectSchema)], [childA])"
  by (simp add: dedupedChildren_def perRootFormatter_def childA_def otherChildA_def
      appendRootChildDefinitions_def inObject_def objectPrototypeKeys_def)



subsection \<open>The schema document\<close>

lemma map_of_spread: "map_of (spread obj src) = map_of obj ++ map_of (rev src)"
proof (induction src arbitrary: obj)
  case Nil
  show ?case by (simp add: spread_def)
next
  case (Cons kv src)
  have s: "spread obj (kv # src) = spread (AList.update (fst kv) (snd kv) obj) src"
    by (simp add: spread_def)
  have u: "map_of (AList.update (fst kv) (snd kv) obj) = (map_of obj)(fst kv \<mapsto> snd kv)"
    by (rule update_conv')
  have "map_of (spread obj (kv # src)) = (map_of obj)(fst kv \<mapsto> snd kv) ++ map_of (rev src)"
    unfolding s Cons.IH u ..
  also have "\<dots> = map_of obj ++ map_of (rev (kv # src))"
    by (cases kv) (simp add: fun_eq_iff map_add_def split: option.splits)
  finally show ?case .
qed

lemma map_of_rev_distinct: "distinct (map fst xs) \<Longrightarrow> map_of (rev xs) = map_of xs"
proof (induction xs)
  case Nil
  show ?case by simp
next
  case (Cons kv xs)
  have n: "map_of xs (fst kv) = None"
    using Cons.prems by (simp add: map_of_eq_None_iff)
  have "map_of (rev (kv # xs)) = [fst kv \<mapsto> snd kv] ++ map_of xs"
    using Cons by simp
  also have "\<dots> = map_of (kv # xs)"
    using n by (cases kv) (auto simp: fun_eq_iff map_add_def split: option.splits)
  finally show ?case .
qed

lemma createSchema_unfold:
  assumes "createSchema prog createType tf q = Inr doc"
  shows "\<exists>roots st. getRootNodes prog q = Inr roots
           \<and> appendAllRoots tf (map createType roots) ([], []) = Inr st
           \<and> doc = AList.update ''definitions'' (definitionsJson (fst st))
                     (spread [(''$schema'', JString draft07)]
                        (if length roots = 1 then getDefinition tf (createType (hd roots)) else []))"
proof -
  obtain roots where r: "getRootNodes prog q = Inr roots"
    using assms by (cases "getRootNodes prog q") (simp_all add: createSchema_def)
  obtain st where s: "appendAllRoots tf (map createType roots) ([], []) = Inr st"
    using assms r
    by (cases "appendAllRoots tf (map createType roots) ([], [])")
       (simp_all add: createSchema_def Let_def)
  have h: "length roots = 1 \<Longrightarrow> hd (map createType roots) = createType (hd roots)"
    by (cases roots) simp_all
  have "doc = AList.update ''definitions'' (definitionsJson (fst st))
                (spread [(''$schema'', JString draft07)]
                   (if length roots = 1 then getDefinition tf (createType (hd roots)) else []))"
    using assms r s h by (auto simp: createSchema_def Let_def getRootTypeDefinition_def)
  then show ?thesis using r s by blast
qed

lemma interface_schema:
  "createSchema shadowProgram plainParser interfaceFormatter (Some ''Foo'')
     = Inr [(''$schema'', JString draft07), (''type'', JString ''object''),
            (''definitions'',
             JObject [(''B'', JObject [(''type'', JString ''object''), (''definitions'', JNull)])])]"
proof -
  have r: "getRootNodes shadowProgram (Some ''Foo'') = Inr [exportedPlainInterface]"
    using findNamedNode_project_hit [OF shadow_project_index, of "''Foo''" exportedPlainInterface]
    by (simp add: getRootNodes_def isNamedQuery_def)
  show ?thesis
    by (simp add: createSchema_def r plainParser_def interfaceFormatter_def
        getRootTypeDefinition_def appendRootChildDefinitions_def dedupedChildren_def
        spread_def definitionsJson_def childB_def inObject_def objectPrototypeKeys_def)
qed

text \<open>
  C3, as the claim states it, fails: the root's fields are spread after \<^verbatim>\<open>$schema\<close>
  is written, and a later property replaces an earlier one. When the single root's
  definition has a \<^verbatim>\<open>$schema\<close> field, the document carries that value and not the
  draft-07 one.
\<close>

theorem schema_field_overridden:
  "createSchema shadowProgram plainParser schemaOverrideFormatter (Some ''Foo'')
     = Inr [(''$schema'', JString ''http://example.org/custom#''), (''definitions'', JObject [])]
   \<and> JString ''http://example.org/custom#'' \<noteq> JString draft07"
proof -
  have r: "getRootNodes shadowProgram (Some ''Foo'') = Inr [exportedPlainInterface]"
    using findNamedNode_project_hit [OF shadow_project_index, of "''Foo''" exportedPlainInterface]
    by (simp add: getRootNodes_def isNamedQuery_def)
  show ?thesis
    by (simp add: createSchema_def r plainParser_def schemaOverrideFormatter_def
        getRootTypeDefinition_def appendRootChildDefinitions_def dedupedChildren_def
        spread_def definitionsJson_def draft07_def)
qed

text \<open>
  C3, amended: a document that \<^verbatim>\<open>createSchema\<close> returns has the field
  \<^verbatim>\<open>definitions\<close>, which holds the collected mapping. When the number of roots is not
  one, the document is exactly the draft-07 \<^verbatim>\<open>$schema\<close> field and \<^verbatim>\<open>definitions\<close>.
  When there is one root, every field other than \<^verbatim>\<open>definitions\<close> is the field of the
  root's definition where the root's definition has it; where it has not, \<^verbatim>\<open>$schema\<close>
  is the draft-07 one and no other field is present.
\<close>

theorem schema_document_shape:
  assumes "createSchema prog createType tf q = Inr doc"
  shows "\<exists>roots st. getRootNodes prog q = Inr roots
           \<and> appendAllRoots tf (map createType roots) ([], []) = Inr st
           \<and> map_of doc ''definitions'' = Some (definitionsJson (fst st))
           \<and> (length roots \<noteq> 1 \<longrightarrow>
                doc = [(''$schema'', JString draft07), (''definitions'', definitionsJson (fst st))])
           \<and> (length roots = 1 \<and> distinct (map fst (getDefinition tf (createType (hd roots))))
                \<longrightarrow> (\<forall>k. k \<noteq> ''definitions'' \<longrightarrow>
                       map_of doc k =
                         (case map_of (getDefinition tf (createType (hd roots))) k of
                            Some v \<Rightarrow> Some v
                          | None \<Rightarrow> if k = ''$schema'' then Some (JString draft07) else None)))"
proof -
  obtain roots st where r: "getRootNodes prog q = Inr roots"
    "appendAllRoots tf (map createType roots) ([], []) = Inr st"
    "doc = AList.update ''definitions'' (definitionsJson (fst st))
             (spread [(''$schema'', JString draft07)]
                (if length roots = 1 then getDefinition tf (createType (hd roots)) else []))"
    using createSchema_unfold [OF assms] by blast
  let ?rd = "getDefinition tf (createType (hd roots))"
  have m: "map_of doc = (map_of (spread [(''$schema'', JString draft07)]
                (if length roots = 1 then ?rd else [])))(''definitions'' \<mapsto> definitionsJson (fst st))"
    unfolding r(3) by (rule update_conv')
  have a: "map_of doc ''definitions'' = Some (definitionsJson (fst st))"
    by (simp add: m)
  have b: "length roots \<noteq> 1 \<longrightarrow>
             doc = [(''$schema'', JString draft07), (''definitions'', definitionsJson (fst st))]"
    by (simp add: r(3) spread_def)
  have c: "length roots = 1 \<and> distinct (map fst ?rd)
             \<longrightarrow> (\<forall>k. k \<noteq> ''definitions'' \<longrightarrow>
                    map_of doc k = (case map_of ?rd k of Some v \<Rightarrow> Some v
                       | None \<Rightarrow> if k = ''$schema'' then Some (JString draft07) else None))"
    by (auto simp: m map_of_spread map_of_rev_distinct map_add_def split: option.splits)
  show ?thesis using r(1,2) a b c by blast
qed

theorem schema_document_shape_witness:
  "createSchema shadowProgram plainParser interfaceFormatter (Some ''Foo'')
     = Inr [(''$schema'', JString draft07), (''type'', JString ''object''),
            (''definitions'',
             JObject [(''B'', JObject [(''type'', JString ''object''), (''definitions'', JNull)])])]
   \<and> (\<exists>roots st. getRootNodes shadowProgram (Some ''Foo'') = Inr roots
         \<and> appendAllRoots interfaceFormatter (map plainParser roots) ([], []) = Inr st)"
proof -
  have "\<exists>roots st. getRootNodes shadowProgram (Some ''Foo'') = Inr roots
         \<and> appendAllRoots interfaceFormatter (map plainParser roots) ([], []) = Inr st"
    using schema_document_shape [OF interface_schema] by blast
  then show ?thesis using interface_schema by simp
qed

subsection \<open>No root at all\<close>

lemma no_roots_discovered: "discoveredInFiles (rootSourceFiles noRootsProgram) = []"
  by (simp add: discoveredInFiles_def rootSourceFiles_def noRootsProgram_def discovered_def
      localEnum_def exportedGenericInterface_def isDeclarationKind_def eligible_def
      isExportType_def isGenericType_def)

text \<open>
  C10: for a wildcard, empty or absent query over root files in which the traversal
  finds no eligible declaration, \<^verbatim>\<open>createSchema\<close> returns, and the document is the
  draft-07 \<^verbatim>\<open>$schema\<close> field and an empty \<^verbatim>\<open>definitions\<close> mapping, nothing else.
\<close>

theorem no_roots_document:
  assumes "\<not> isNamedQuery q" and "discoveredInFiles (rootSourceFiles prog) = []"
  shows "createSchema prog createType tf q
           = Inr [(''$schema'', JString draft07), (''definitions'', JObject [])]"
proof -
  have "getRootNodes prog q = Inr []"
    using assms by (simp add: getRootNodes_wildcard allBound_def recordAll_Nil)
  then show ?thesis
    by (simp add: createSchema_def spread_def definitionsJson_def)
qed

theorem no_roots_document_witness:
  "\<not> isNamedQuery None
   \<and> discoveredInFiles (rootSourceFiles noRootsProgram) = []
   \<and> createSchema noRootsProgram plainParser sampleFormatter None
       = Inr [(''$schema'', JString ''http://json-schema.org/draft-07/schema#''),
              (''definitions'', JObject [])]"
proof -
  have q: "\<not> isNamedQuery None"
    by (simp add: isNamedQuery_def)
  show ?thesis
    using no_roots_document [OF q no_roots_discovered, of plainParser sampleFormatter]
      q no_roots_discovered
    by (simp add: draft07_def)
qed

end
